theory Spec2Isabelle
  imports Complex_Main
begin

section \<open>Values of the route layer\<close>

text \<open>
  The two route files, \<^verbatim>\<open>src/backend/routes/index.js\<close> and \<^verbatim>\<open>src/unnamed/part_000\<close>,
  each define a router with the handlers \<^verbatim>\<open>/hello\<close> and \<^verbatim>\<open>/noticias\<close>; the remaining
  routes are bound to a controller whose code is elsewhere.

  A JavaScript string is modelled by the bytes of its UTF-8 encoding, so \<open>string\<close>
  covers every text the handlers meet; appending, emptiness and the ASCII characters
  \<^verbatim>\<open>& = ?\<close> mean the same on both sides. A value that may be \<^verbatim>\<open>undefined\<close> is an
  \<open>option\<close>. A query value of the inbound request is a string or \<^verbatim>\<open>undefined\<close>: the
  model covers requests that carry \<^verbatim>\<open>to\<close> at most once, as a plain \<^verbatim>\<open>to=value\<close> pair.
\<close>

datatype json =
    JNull
  | JBool bool
  | JNum rat
  | JStr string
  | JArr "json list"
  | JObj "(string \<times> json) list"

type_synonym env = "string \<rightharpoonup> string"

record request =
  query :: "string \<rightharpoonup> string"

text \<open>\<^verbatim>\<open>!x\<close> and \<^verbatim>\<open>x ? a : b\<close> on a string or \<^verbatim>\<open>undefined\<close>: the empty string and
  \<^verbatim>\<open>undefined\<close> are falsy.\<close>

fun truthy :: "string option \<Rightarrow> bool" where
  "truthy None = False"
| "truthy (Some s) = (s \<noteq> [])"

text \<open>\<^verbatim>\<open>${x}\<close> inside a template literal.\<close>

fun template_str :: "string option \<Rightarrow> string" where
  "template_str None = ''undefined''"
| "template_str (Some s) = s"

subsection \<open>The response under construction\<close>

datatype header_value = HStr string | HNum int

datatype body = Text string | Json json

record server_response =
  statusCode :: nat
  headers :: "string \<rightharpoonup> header_value"
  body :: "body option"

subsection \<open>The outbound HTTP client\<close>

text \<open>The \<^verbatim>\<open>params\<close> object literal of the structured variant; the key \<^verbatim>\<open>to\<close> is
  absent when its field is \<open>None\<close>.\<close>

record params =
  q :: string
  country :: string
  max' :: nat
  token :: "string option"
  to :: "string option"

datatype axios_call = AxiosGet (call_url: string) (call_config: "params option")

record axios_response =
  data :: json
  status :: nat
  response_headers :: "(string \<times> string) list"

datatype client_request = ClientRequest string

record js_error =
  response :: "axios_response option"
  request :: "client_request option"
  message :: string

datatype axios_result = Resolves axios_response | Rejects js_error

text \<open>What \<^verbatim>\<open>await axios.get(...)\<close> yields is decided by the network and by the client
  library; it is a parameter of the handlers. A call that never settles is outside the
  model.\<close>

type_synonym net = "axios_call \<Rightarrow> axios_result"

subsection \<open>The observable world of one request\<close>

datatype log_arg =
    LStr string
  | LJson json
  | LNum nat
  | LHeaders "(string \<times> string) list"
  | LRequest client_request

record world =
  calls :: "axios_call list"
  console :: "log_arg list list"
  res :: server_response

text \<open>A new response object has status 200, no header set by a handler and no body. Only
  what a handler sets is recorded: the headers the framework adds on its own (the content
  type, the length) are not part of the model, and header names are compared as written.\<close>

definition fresh :: world where
  "fresh = \<lparr>calls = [], console = [],
            res = \<lparr>statusCode = 200, headers = Map.empty, body = None\<rparr>\<rparr>"

definition res_status :: "nat \<Rightarrow> world \<Rightarrow> world" where
  "res_status code w = w\<lparr>res := (res w)\<lparr>statusCode := code\<rparr>\<rparr>"

definition res_setHeader :: "string \<Rightarrow> header_value \<Rightarrow> world \<Rightarrow> world" where
  "res_setHeader name v w = w\<lparr>res := (res w)\<lparr>headers := (headers (res w))(name \<mapsto> v)\<rparr>\<rparr>"

definition res_json :: "json \<Rightarrow> world \<Rightarrow> world" where
  "res_json j w = w\<lparr>res := (res w)\<lparr>body := Some (Json j)\<rparr>\<rparr>"

definition res_send :: "string \<Rightarrow> world \<Rightarrow> world" where
  "res_send s w = w\<lparr>res := (res w)\<lparr>body := Some (Text s)\<rparr>\<rparr>"

definition console_error :: "log_arg list \<Rightarrow> world \<Rightarrow> world" where
  "console_error args w = w\<lparr>console := console w @ [args]\<rparr>"

definition axios_get :: "net \<Rightarrow> axios_call \<Rightarrow> world \<Rightarrow> axios_result \<times> world" where
  "axios_get n c w = (n c, w\<lparr>calls := calls w @ [c]\<rparr>)"

definition new_Error :: "string \<Rightarrow> js_error" where
  "new_Error msg = \<lparr>response = None, request = None, message = msg\<rparr>"

section \<open>The handlers\<close>

subsection \<open>Texts shared by the two files\<close>

text \<open>The search expression is the same text in both files: in \<^verbatim>\<open>index.js\<close> between
  \<^verbatim>\<open>?q=\<close> and \<^verbatim>\<open>&country\<close> of the template, in \<^verbatim>\<open>part_000\<close> the value of \<^verbatim>\<open>q\<close>.\<close>

definition search_expression :: string where
  \<open>search_expression =
     ''queimadas AND (Amaz'' @ [CHR 0xC3, CHR 0xB4] @ ''nia OR floresta OR cerrado OR '' @
     ''Pantanal OR Norte OR Sul OR Sudeste OR Nordeste OR Caatinga OR Pampa OR '' @
     ''"Mata Atl'' @ [CHR 0xC3, CHR 0xA2] @ ''ntica" OR "Centro-Oeste" OR Brasil) '' @
     ''NOT ("LA" OR "Los Angeles")''\<close>

definition missing_key_message :: string where
  "missing_key_message =
     ''Chave da API de not'' @ [CHR 0xC3, CHR 0xAD] @ ''cias n'' @ [CHR 0xC3, CHR 0xA3] @
     ''o configurada no servidor.''"

definition failure_body :: json where
  "failure_body =
     JObj [(''error'', JStr (''Falha ao buscar not'' @ [CHR 0xC3, CHR 0xAD] @ ''cias externas.''))]"

subsection \<open>\<^verbatim>\<open>/hello\<close> (the same in both files)\<close>

definition hello :: "request \<Rightarrow> world \<Rightarrow> world" where
  "hello req w = res_send ''Hello world'' w"

subsection \<open>\<^verbatim>\<open>/noticias\<close> in \<^verbatim>\<open>src/backend/routes/index.js\<close>\<close>

text \<open>The URL is one template literal. The constant \<^verbatim>\<open>PAGE_SIZE\<close> declared before it is not
  used: the cap is the text \<^verbatim>\<open>max=10\<close> of the template.\<close>

definition url_index :: "string option \<Rightarrow> request \<Rightarrow> string" where
  "url_index apiKey req =
     (let lastPublishedAt = query req ''to'';
          dateFilter = (if truthy lastPublishedAt then ''&to='' @ template_str lastPublishedAt
                        else '''')
      in ''https://gnews.io/api/v4/search?q='' @ search_expression @ ''&country=br&max=10'' @
         dateFilter @ ''&token='' @ template_str apiKey)"

definition noticias_index_try :: "env \<Rightarrow> net \<Rightarrow> request \<Rightarrow> world \<Rightarrow> js_error option \<times> world" where
  "noticias_index_try e n req w =
     (let apiKey = e ''GNEWS_API_KEY'' in
      if \<not> truthy apiKey then (Some (new_Error missing_key_message), w)
      else
        let url = url_index apiKey req;
            (r, w1) = axios_get n (AxiosGet url None) w
        in case r of
             Rejects error \<Rightarrow> (Some error, w1)
           | Resolves resp \<Rightarrow> (None, res_json (data resp) w1))"

definition noticias_index_catch :: "js_error \<Rightarrow> world \<Rightarrow> world" where
  "noticias_index_catch error w =
     (let w1 = console_error
                 [LStr (''Erro ao buscar not'' @ [CHR 0xC3, CHR 0xAD] @ ''cias do GNews:''),
                  LStr (message error)] w;
          w2 = res_status 500 w1
      in res_json failure_body w2)"

definition noticias_index :: "env \<Rightarrow> net \<Rightarrow> request \<Rightarrow> world \<Rightarrow> world" where
  "noticias_index e n req w =
     (case noticias_index_try e n req w of
        (None, w') \<Rightarrow> w'
      | (Some error, w') \<Rightarrow> noticias_index_catch error w')"

subsection \<open>\<^verbatim>\<open>/noticias\<close> in \<^verbatim>\<open>src/unnamed/part_000\<close>\<close>

definition params_part_000 :: "string option \<Rightarrow> request \<Rightarrow> params" where
  "params_part_000 apiKey req =
     (let params = \<lparr>q = search_expression, country = ''br'', max' = 10, token = apiKey,
                     to = None\<rparr>
      in if truthy (query req ''to'') then params\<lparr>to := query req ''to''\<rparr> else params)"

definition noticias_part_000_try :: "env \<Rightarrow> net \<Rightarrow> request \<Rightarrow> world \<Rightarrow> js_error option \<times> world" where
  "noticias_part_000_try e n req w =
     (let apiKey = e ''GNEWS_API_KEY'' in
      if \<not> truthy apiKey then (Some (new_Error missing_key_message), w)
      else
        let baseUrl = ''https://gnews.io/api/v4/search'';
            params = params_part_000 apiKey req;
            (r, w1) = axios_get n (AxiosGet baseUrl (Some params)) w
        in case r of
             Rejects error \<Rightarrow> (Some error, w1)
           | Resolves resp \<Rightarrow>
               (let w2 = res_setHeader ''Cache-Control''
                           (HStr ''no-cache, no-store, must-revalidate'') w1;
                    w3 = res_setHeader ''Pragma'' (HStr ''no-cache'') w2;
                    w4 = res_setHeader ''Expires'' (HNum 0) w3
                in (None, res_json (data resp) w4)))"

definition noticias_part_000_catch :: "js_error \<Rightarrow> world \<Rightarrow> world" where
  "noticias_part_000_catch error w =
     (let w1 = console_error
                 [LStr (''--- IN'' @ [CHR 0xC3, CHR 0x8D] @ ''CIO DO ERRO DETALHADO DO AXIOS ---'')] w;
          w2 = (case response error of
                  Some r \<Rightarrow>
                    console_error
                      [LStr (''Cabe'' @ [CHR 0xC3, CHR 0xA7] @ ''alhos da Resposta:''),
                       LHeaders (response_headers r)]
                      (console_error [LStr ''Status do Erro:'', LNum (status r)]
                        (console_error [LStr ''Dados da Resposta:'', LJson (data r)] w1))
                | None \<Rightarrow>
                    (case request error of
                       Some rq \<Rightarrow>
                         console_error [LStr ''Nenhuma resposta recebida do GNews:'', LRequest rq] w1
                     | None \<Rightarrow>
                         console_error
                           [LStr ''Erro ao configurar o pedido para o GNews:'',
                            LStr (message error)] w1));
          w3 = console_error [LStr ''--- FIM DO ERRO DETALHADO DO AXIOS ---''] w2;
          w4 = res_status 500 w3
      in res_json failure_body w4)"

definition noticias_part_000 :: "env \<Rightarrow> net \<Rightarrow> request \<Rightarrow> world \<Rightarrow> world" where
  "noticias_part_000 e n req w =
     (case noticias_part_000_try e n req w of
        (None, w') \<Rightarrow> w'
      | (Some error, w') \<Rightarrow> noticias_part_000_catch error w')"

subsection \<open>The routers\<close>

text \<open>GET dispatch on the path, for a new response. \<open>None\<close> stands for every path the
  inline handlers do not serve (the controller routes and unknown paths).\<close>

definition router_index :: "env \<Rightarrow> net \<Rightarrow> string \<Rightarrow> request \<Rightarrow> world option" where
  "router_index e n path req =
     (if path = ''/hello'' then Some (hello req fresh)
      else if path = ''/noticias'' then Some (noticias_index e n req fresh)
      else None)"

definition router_part_000 :: "env \<Rightarrow> net \<Rightarrow> string \<Rightarrow> request \<Rightarrow> world option" where
  "router_part_000 e n path req =
     (if path = ''/hello'' then Some (hello req fresh)
      else if path = ''/noticias'' then Some (noticias_part_000 e n req fresh)
      else None)"

section \<open>Reading a URL's query string\<close>

text \<open>
  These definitions are not code of the repository: following the generic URL syntax,
  they fix what the statements below mean by the parameters a URL text carries, so that
  the URL built by string interpolation can be compared with the \<^verbatim>\<open>params\<close> object. The URL ends at
  its first \<^verbatim>\<open>#\<close> (what follows is a fragment, which is not sent); the query string is
  what follows the first \<^verbatim>\<open>?\<close>; its segments are separated by \<^verbatim>\<open>&\<close>; a segment is split
  into name and value at its first \<^verbatim>\<open>=\<close>; a name is looked up at its first occurrence.
  No percent-decoding is applied: names and values are the raw text of the URL.
\<close>

fun split_on :: "char \<Rightarrow> string \<Rightarrow> string list" where
  "split_on c [] = [[]]"
| "split_on c (x # xs) =
     (if x = c then [] # split_on c xs
      else (case split_on c xs of
              [] \<Rightarrow> [[x]]
            | y # ys \<Rightarrow> (x # y) # ys))"

definition query_string :: "string \<Rightarrow> string" where
  "query_string url =
     drop 1 (dropWhile (\<lambda>x. x \<noteq> CHR ''?'') (takeWhile (\<lambda>x. x \<noteq> CHR ''#'') url))"

definition query_segments :: "string \<Rightarrow> string list" where
  "query_segments url = split_on CHR ''&'' (query_string url)"

definition name_value :: "string \<Rightarrow> string \<times> string" where
  "name_value seg =
     (takeWhile (\<lambda>x. x \<noteq> CHR ''='') seg, drop 1 (dropWhile (\<lambda>x. x \<noteq> CHR ''='') seg))"

definition query_params :: "string \<Rightarrow> (string \<times> string) list" where
  "query_params url = map name_value (query_segments url)"

definition get_param :: "string \<Rightarrow> string \<Rightarrow> string option" where
  "get_param name url = map_of (query_params url) name"

section \<open>The body as text\<close>

text \<open>
  Neither the HTTP client nor the web framework is code of the repository. What they do
  to a body is fixed here from their documented behaviour, for statements about the bytes
  on either side of the handler: the client hands a body that is JSON text to the handler
  as the value \<^verbatim>\<open>JSON.parse\<close> gives (\<open>json_parse\<close>), and \<^verbatim>\<open>res.json(v)\<close> sends the text
  \<^verbatim>\<open>JSON.stringify(v)\<close> (\<open>json_stringify\<close>).

  Both are defined on a fragment of JSON and are \<open>None\<close> outside it: objects whose names are
  distinct and not written as a number, arrays, strings of characters that need no escape,
  integers of at most 15 digits other than \<^verbatim>\<open>-0\<close>, \<^verbatim>\<open>true\<close>, \<^verbatim>\<open>false\<close> and \<^verbatim>\<open>null\<close>; between the
  tokens of a text there may be spaces, tabs and line ends. The first argument of
  \<open>json_value\<close>, \<open>elements\<close> and \<open>members\<close> bounds the number of nested calls.
\<close>

definition is_ws :: "char \<Rightarrow> bool" where
  "is_ws c = (c = CHR '' '' \<or> c = CHR 0x09 \<or> c = CHR 0x0A \<or> c = CHR 0x0D)"

definition skip_ws :: "string \<Rightarrow> string" where
  "skip_ws s = dropWhile is_ws s"

definition is_digit :: "char \<Rightarrow> bool" where
  "is_digit c = (48 \<le> (of_char c :: nat) \<and> (of_char c :: nat) \<le> 57)"

definition needs_escape :: "char \<Rightarrow> bool" where
  "needs_escape c = (c = CHR 0x22 \<or> c = CHR 0x5C \<or> (of_char c :: nat) < 32)"

fun string_body :: "string \<Rightarrow> (string \<times> string) option" where
  "string_body [] = None"
| "string_body (c # cs) =
     (if c = CHR 0x22 then Some ([], cs)
      else if needs_escape c then None
      else map_option (\<lambda>(s, rest). (c # s, rest)) (string_body cs))"

definition number :: "string \<Rightarrow> (json \<times> string) option" where
  "number s =
     (let neg = (take 1 s = ''-'');
          t = (if neg then drop 1 s else s);
          ds = takeWhile is_digit t;
          rest = dropWhile is_digit t;
          m = foldl (\<lambda>a c. 10 * a + (of_char c - 48)) (0::nat) ds
      in if ds = [] \<or> 15 < length ds \<or> (1 < length ds \<and> take 1 ds = ''0'') \<or> (neg \<and> m = 0)
            \<or> take 1 rest = ''.'' \<or> take 1 rest = ''e'' \<or> take 1 rest = ''E''
         then None
         else Some (JNum (of_int (if neg then - int m else int m)), rest))"

fun json_value :: "nat \<Rightarrow> string \<Rightarrow> (json \<times> string) option"
  and elements :: "nat \<Rightarrow> string \<Rightarrow> (json list \<times> string) option"
  and members :: "nat \<Rightarrow> string \<Rightarrow> ((string \<times> json) list \<times> string) option"
where
  "json_value 0 s = None"
| "json_value (Suc k) s =
     (case skip_ws s of
        [] \<Rightarrow> None
      | c # cs \<Rightarrow>
          if c = CHR 0x22 then map_option (\<lambda>(t, rest). (JStr t, rest)) (string_body cs)
          else if c = CHR ''['' then
            (if take 1 (skip_ws cs) = '']'' then Some (JArr [], drop 1 (skip_ws cs))
             else map_option (\<lambda>(js, rest). (JArr js, rest)) (elements k cs))
          else if c = CHR ''{'' then
            (if take 1 (skip_ws cs) = ''}'' then Some (JObj [], drop 1 (skip_ws cs))
             else map_option (\<lambda>(ms, rest). (JObj ms, rest)) (members k cs))
          else if take 4 (c # cs) = ''null'' then Some (JNull, drop 4 (c # cs))
          else if take 4 (c # cs) = ''true'' then Some (JBool True, drop 4 (c # cs))
          else if take 5 (c # cs) = ''false'' then Some (JBool False, drop 5 (c # cs))
          else number (c # cs))"
| "elements 0 s = None"
| "elements (Suc k) s =
     (case json_value k s of
        None \<Rightarrow> None
      | Some (j, rest) \<Rightarrow>
          (case skip_ws rest of
             [] \<Rightarrow> None
           | c # cs \<Rightarrow>
               if c = CHR '']'' then Some ([j], cs)
               else if c = CHR '','' then map_option (\<lambda>(js, r). (j # js, r)) (elements k cs)
               else None))"
| "members 0 s = None"
| "members (Suc k) s =
     (case skip_ws s of
        [] \<Rightarrow> None
      | c # cs \<Rightarrow>
          if c \<noteq> CHR 0x22 then None
          else
            (case string_body cs of
               None \<Rightarrow> None
             | Some (name, rest) \<Rightarrow>
                 (case skip_ws rest of
                    [] \<Rightarrow> None
                  | d # ds \<Rightarrow>
                      if d \<noteq> CHR '':'' then None
                      else
                        (case json_value k ds of
                           None \<Rightarrow> None
                         | Some (j, rest') \<Rightarrow>
                             (case skip_ws rest' of
                                [] \<Rightarrow> None
                              | x # xs \<Rightarrow>
                                  if x = CHR ''}'' then Some ([(name, j)], xs)
                                  else if x = CHR '','' then
                                    map_option (\<lambda>(ms, r). ((name, j) # ms, r)) (members k xs)
                                  else None)))))"







section \<open>Sample inputs\<close>

text \<open>Concrete environments, requests and upstream behaviours at which the theorems below
  are instantiated.\<close>

definition env_unset :: env where
  "env_unset = Map.empty"

definition env_empty_key :: env where
  "env_empty_key = [''GNEWS_API_KEY'' \<mapsto> []]"

definition env_with_key :: env where
  "env_with_key = [''GNEWS_API_KEY'' \<mapsto> ''0123456789abcdef'']"

definition req_plain :: request where
  "req_plain = \<lparr>query = Map.empty\<rparr>"

definition req_cursor :: request where
  "req_cursor = \<lparr>query = [''to'' \<mapsto> ''2024-01-15T00:00:00Z'']\<rparr>"

definition req_ampersand :: request where
  "req_ampersand = \<lparr>query = [''to'' \<mapsto> ''2024-01-15&max=100'']\<rparr>"

definition req_equals :: request where
  "req_equals = \<lparr>query = [''to'' \<mapsto> ''a=b'']\<rparr>"

definition articles :: axios_response where
  "articles = \<lparr>data = JObj [(''totalArticles'', JNum 0), (''articles'', JArr [])],
               status = 200, response_headers = [(''content-type'', ''application/json'')]\<rparr>"

definition upstream_ok :: net where
  "upstream_ok c = Resolves articles"

definition error_503 :: js_error where
  "error_503 =
     \<lparr>response = Some \<lparr>data = JObj [(''errors'', JArr [JStr ''unavailable''])],
                         status = 503, response_headers = []\<rparr>,
      request = Some (ClientRequest ''GET''),
      message = ''Request failed with status code 503''\<rparr>"

definition error_unreachable :: js_error where
  "error_unreachable =
     \<lparr>response = None, request = Some (ClientRequest ''GET''),
      message = ''connect ECONNREFUSED''\<rparr>"

definition error_unbuildable :: js_error where
  "error_unbuildable = \<lparr>response = None, request = None, message = ''Invalid URL''\<rparr>"

definition upstream_503 :: net where
  "upstream_503 c = Rejects error_503"

definition upstream_unreachable :: net where
  "upstream_unreachable c = Rejects error_unreachable"

definition upstream_unbuildable :: net where
  "upstream_unbuildable c = Rejects error_unbuildable"

definition req_injection :: request where
  "req_injection = \<lparr>query = [''to'' \<mapsto> ''x&max=100&country=us&q=anything'']\<rparr>"



section \<open>Splitting at a separator\<close>

lemma split_on_ne: "split_on c xs \<noteq> []"
  by (induction xs) (auto split: list.splits)

lemma split_on_append: "split_on c (a @ c # b) = split_on c a @ split_on c b"
  by (induction a) (auto split: list.splits simp: split_on_ne)

lemma split_on_none: "c \<notin> set a \<Longrightarrow> split_on c a = [a]"
  by (induction a) (auto split: list.splits)

lemma split_on_takeWhile: "\<exists>rest. split_on c xs = takeWhile (\<lambda>x. x \<noteq> c) xs # rest"
  by (induction xs) (auto split: list.splits)

lemma split_on_length:
  assumes "c \<in> set xs"
  shows "2 \<le> length (split_on c xs)"
proof -
  from assms obtain a b where "xs = a @ c # b"
    by (meson split_list)
  then have "length (split_on c xs) = length (split_on c a) + length (split_on c b)"
    by (simp add: split_on_append)
  moreover have "0 < length (split_on c a)"
    using split_on_ne [of c a] by simp
  moreover have "0 < length (split_on c b)"
    using split_on_ne [of c b] by simp
  ultimately show ?thesis
    by linarith
qed

lemma split_on_append3:
  "split_on c (A @ c # B @ c # C @ c # R) =
     split_on c A @ split_on c B @ split_on c C @ split_on c R"
  by (simp only: split_on_append)

section \<open>The URL built by \<^verbatim>\<open>index.js\<close>\<close>

lemma search_expression_no_amp: "CHR ''&'' \<notin> set search_expression"
  by (simp add: search_expression_def)

lemma search_expression_no_hash: "CHR ''#'' \<notin> set search_expression"
  by (simp add: search_expression_def)

lemma takeWhile_search_expression:
  "takeWhile (\<lambda>x. x \<noteq> CHR ''#'') (search_expression @ ys) =
     search_expression @ takeWhile (\<lambda>x. x \<noteq> CHR ''#'') ys"
  using search_expression_no_hash by (intro takeWhile_append2) auto

lemma url_index_text:
  "url_index k req =
     ''https://gnews.io/api/v4/search?q='' @ search_expression @ ''&country=br&max=10'' @
     (if truthy (query req ''to'') then ''&to='' @ template_str (query req ''to'') else []) @
     ''&token='' @ template_str k"
  by (simp add: url_index_def Let_def)

lemma query_string_url_index:
  "query_string (url_index k req) =
     (''q='' @ search_expression) @ CHR ''&'' # ''country=br'' @ CHR ''&'' # ''max=10'' @
     CHR ''&'' #
     takeWhile (\<lambda>x. x \<noteq> CHR ''#'')
       (if truthy (query req ''to'')
        then (''to='' @ template_str (query req ''to'')) @ CHR ''&'' # (''token='' @ template_str k)
        else ''token='' @ template_str k)"
  by (simp add: query_string_def url_index_def Let_def takeWhile_search_expression)

lemma query_segments_url_index:
  "query_segments (url_index k req) =
     [''q='' @ search_expression, ''country=br'', ''max=10''] @
     split_on CHR ''&''
       (takeWhile (\<lambda>x. x \<noteq> CHR ''#'')
         (if truthy (query req ''to'')
          then (''to='' @ template_str (query req ''to'')) @ CHR ''&'' # (''token='' @ template_str k)
          else ''token='' @ template_str k))"
proof -
  let ?R = "takeWhile (\<lambda>x. x \<noteq> CHR ''#'')
         (if truthy (query req ''to'')
          then (''to='' @ template_str (query req ''to'')) @ CHR ''&'' # (''token='' @ template_str k)
          else ''token='' @ template_str k)"
  have a: "split_on CHR ''&'' (''q='' @ search_expression) = [''q='' @ search_expression]"
    by (rule split_on_none) (simp add: search_expression_no_amp)
  have b: "split_on CHR ''&'' ''country=br'' = [''country=br'']"
    by (rule split_on_none) simp
  have c: "split_on CHR ''&'' ''max=10'' = [''max=10'']"
    by (rule split_on_none) simp
  have "query_segments (url_index k req) =
      split_on CHR ''&'' (''q='' @ search_expression) @ split_on CHR ''&'' ''country=br'' @
      split_on CHR ''&'' ''max=10'' @ split_on CHR ''&'' ?R"
    unfolding query_segments_def query_string_url_index by (rule split_on_append3)
  also have "\<dots> = [''q='' @ search_expression] @ [''country=br''] @ [''max=10''] @
      split_on CHR ''&'' ?R"
    by (simp only: a b c)
  finally show ?thesis
    by simp
qed

text \<open>When neither the cursor nor the key contains \<^verbatim>\<open>#\<close>, nothing is cut off.\<close>

lemma query_segments_url_index_to:
  assumes "query req ''to'' = Some v" and "v \<noteq> []" and "CHR ''#'' \<notin> set v"
  shows "query_segments (url_index k req) =
     [''q='' @ search_expression, ''country=br'', ''max=10''] @
     split_on CHR ''&'' (''to='' @ v) @
     split_on CHR ''&'' (takeWhile (\<lambda>x. x \<noteq> CHR ''#'') (''token='' @ template_str k))"
proof -
  from assms(3) have "\<And>x. x \<in> set (''to='' @ v) \<Longrightarrow> x \<noteq> CHR ''#''"
    by auto
  then have "takeWhile (\<lambda>x. x \<noteq> CHR ''#'')
        ((''to='' @ v) @ CHR ''&'' # (''token='' @ template_str k)) =
      (''to='' @ v) @ takeWhile (\<lambda>x. x \<noteq> CHR ''#'') (CHR ''&'' # (''token='' @ template_str k))"
    by (rule takeWhile_append2)
  also have "takeWhile (\<lambda>x. x \<noteq> CHR ''#'') (CHR ''&'' # (''token='' @ template_str k)) =
      CHR ''&'' # takeWhile (\<lambda>x. x \<noteq> CHR ''#'') (''token='' @ template_str k)"
    by simp
  finally have "takeWhile (\<lambda>x. x \<noteq> CHR ''#'')
        ((''to='' @ v) @ CHR ''&'' # (''token='' @ template_str k)) =
      (''to='' @ v) @ CHR ''&'' # takeWhile (\<lambda>x. x \<noteq> CHR ''#'') (''token='' @ template_str k)" .
  then show ?thesis
    unfolding query_segments_url_index using assms(1,2)
    by (simp only: truthy.simps template_str.simps if_True split_on_append simp_thms)
qed

lemma name_value_q: "name_value (CHR ''q'' # CHR ''='' # s) = (''q'', s)"
  by (simp add: name_value_def)

lemma name_value_to: "name_value (CHR ''t'' # CHR ''o'' # CHR ''='' # s) = (''to'', s)"
  by (simp add: name_value_def)

lemma query_params_url_index:
  "query_params (url_index k req) =
     [(''q'', search_expression), (''country'', ''br''), (''max'', ''10'')] @
     map name_value
       (split_on CHR ''&''
         (takeWhile (\<lambda>x. x \<noteq> CHR ''#'')
           (if truthy (query req ''to'')
            then (''to='' @ template_str (query req ''to'')) @ CHR ''&'' # (''token='' @ template_str k)
            else ''token='' @ template_str k)))"
proof -
  have "name_value ''country=br'' = (''country'', ''br'')"
    by (simp add: name_value_def)
  moreover have "name_value ''max=10'' = (''max'', ''10'')"
    by (simp add: name_value_def)
  ultimately show ?thesis
    unfolding query_params_def query_segments_url_index
    by (simp add: name_value_q del: split_on.simps)
qed

lemma get_param_fixed:
  "get_param ''q'' (url_index k req) = Some search_expression"
  "get_param ''country'' (url_index k req) = Some ''br''"
  "get_param ''max'' (url_index k req) = Some ''10''"
  unfolding get_param_def query_params_url_index by simp_all

lemma name_value_to_text: "name_value (''to='' @ s) = (''to'', s)"
  by (simp add: name_value_def)

lemma get_param_to:
  assumes "query req ''to'' = Some v" and "v \<noteq> []"
  shows "get_param ''to'' (url_index k req) =
           Some (takeWhile (\<lambda>x. x \<noteq> CHR ''&'' \<and> x \<noteq> CHR ''#'') v)"
proof -
  let ?T = "takeWhile (\<lambda>x. x \<noteq> CHR ''#'')
              ((''to='' @ v) @ CHR ''&'' # (''token='' @ template_str k))"
  let ?cut = "takeWhile (\<lambda>x. x \<noteq> CHR ''&'' \<and> x \<noteq> CHR ''#'') v"
  obtain rest where r: "split_on CHR ''&'' ?T = takeWhile (\<lambda>x. x \<noteq> CHR ''&'') ?T # rest"
    using split_on_takeWhile by blast
  have h: "takeWhile (\<lambda>x. x \<noteq> CHR ''&'') ?T = ''to='' @ ?cut"
  proof -
    have "takeWhile (\<lambda>x. x \<noteq> CHR ''&'') ?T =
        takeWhile (\<lambda>x. x \<noteq> CHR ''#'' \<and> x \<noteq> CHR ''&'')
          ((''to='' @ v) @ CHR ''&'' # (''token='' @ template_str k))"
      by (rule takeWhile_takeWhile)
    also have "\<dots> = takeWhile (\<lambda>x. x \<noteq> CHR ''#'' \<and> x \<noteq> CHR ''&'') (''to='' @ v)"
      by (rule takeWhile_tail) simp
    also have "\<dots> = ''to='' @ takeWhile (\<lambda>x. x \<noteq> CHR ''#'' \<and> x \<noteq> CHR ''&'') v"
      by simp
    also have "(\<lambda>x. x \<noteq> CHR ''#'' \<and> x \<noteq> CHR ''&'') = (\<lambda>x. x \<noteq> CHR ''&'' \<and> x \<noteq> CHR ''#'')"
      by auto
    finally show ?thesis .
  qed
  have "query_params (url_index k req) =
     [(''q'', search_expression), (''country'', ''br''), (''max'', ''10'')] @
     map name_value (split_on CHR ''&'' ?T)"
    unfolding query_params_url_index using assms
    by (simp only: truthy.simps template_str.simps if_True simp_thms)
  also have "\<dots> = [(''q'', search_expression), (''country'', ''br''), (''max'', ''10'')] @
     (''to'', ?cut) # map name_value rest"
    by (simp only: r h list.map name_value_to_text)
  finally show ?thesis
    unfolding get_param_def by simp
qed

section \<open>What each handler does, path by path\<close>

lemma noticias_index_missing:
  assumes "\<not> truthy (e ''GNEWS_API_KEY'')"
  shows "noticias_index e n req w = noticias_index_catch (new_Error missing_key_message) w"
  using assms by (simp add: noticias_index_def noticias_index_try_def)

lemma noticias_index_rejects:
  assumes "truthy (e ''GNEWS_API_KEY'')"
    and "n (AxiosGet (url_index (e ''GNEWS_API_KEY'') req) None) = Rejects err"
  shows "noticias_index e n req w =
           noticias_index_catch err
             (w\<lparr>calls := calls w @ [AxiosGet (url_index (e ''GNEWS_API_KEY'') req) None]\<rparr>)"
  using assms by (simp add: noticias_index_def noticias_index_try_def axios_get_def)

lemma noticias_index_resolves:
  assumes "truthy (e ''GNEWS_API_KEY'')"
    and "n (AxiosGet (url_index (e ''GNEWS_API_KEY'') req) None) = Resolves r"
  shows "noticias_index e n req w =
           res_json (data r)
             (w\<lparr>calls := calls w @ [AxiosGet (url_index (e ''GNEWS_API_KEY'') req) None]\<rparr>)"
  using assms by (simp add: noticias_index_def noticias_index_try_def axios_get_def)

lemma noticias_part_000_missing:
  assumes "\<not> truthy (e ''GNEWS_API_KEY'')"
  shows "noticias_part_000 e n req w = noticias_part_000_catch (new_Error missing_key_message) w"
  using assms by (simp add: noticias_part_000_def noticias_part_000_try_def)

lemma noticias_part_000_rejects:
  assumes "truthy (e ''GNEWS_API_KEY'')"
    and "n (AxiosGet ''https://gnews.io/api/v4/search''
              (Some (params_part_000 (e ''GNEWS_API_KEY'') req))) = Rejects err"
  shows "noticias_part_000 e n req w =
           noticias_part_000_catch err
             (w\<lparr>calls := calls w @ [AxiosGet ''https://gnews.io/api/v4/search''
                                      (Some (params_part_000 (e ''GNEWS_API_KEY'') req))]\<rparr>)"
  using assms by (simp add: noticias_part_000_def noticias_part_000_try_def axios_get_def)

lemma noticias_part_000_resolves:
  assumes "truthy (e ''GNEWS_API_KEY'')"
    and "n (AxiosGet ''https://gnews.io/api/v4/search''
              (Some (params_part_000 (e ''GNEWS_API_KEY'') req))) = Resolves r"
  shows "noticias_part_000 e n req w =
           res_json (data r)
             (res_setHeader ''Expires'' (HNum 0)
               (res_setHeader ''Pragma'' (HStr ''no-cache'')
                 (res_setHeader ''Cache-Control'' (HStr ''no-cache, no-store, must-revalidate'')
                   (w\<lparr>calls := calls w @ [AxiosGet ''https://gnews.io/api/v4/search''
                                      (Some (params_part_000 (e ''GNEWS_API_KEY'') req))]\<rparr>))))"
  using assms by (simp add: noticias_part_000_def noticias_part_000_try_def axios_get_def Let_def)

lemma res_noticias_index_catch:
  "res (noticias_index_catch err w) = (res w)\<lparr>statusCode := 500, body := Some (Json failure_body)\<rparr>"
  by (simp add: noticias_index_catch_def res_json_def res_status_def console_error_def Let_def)

lemma calls_noticias_index_catch: "calls (noticias_index_catch err w) = calls w"
  by (simp add: noticias_index_catch_def res_json_def res_status_def console_error_def Let_def)

lemma res_noticias_part_000_catch:
  "res (noticias_part_000_catch err w) = (res w)\<lparr>statusCode := 500, body := Some (Json failure_body)\<rparr>"
  by (simp add: noticias_part_000_catch_def res_json_def res_status_def console_error_def Let_def
           split: option.splits)

lemma calls_noticias_part_000_catch: "calls (noticias_part_000_catch err w) = calls w"
  by (simp add: noticias_part_000_catch_def res_json_def res_status_def console_error_def Let_def
           split: option.splits)

lemma calls_noticias_index:
  "calls (noticias_index e n req w) =
     calls w @ (if truthy (e ''GNEWS_API_KEY'')
                then [AxiosGet (url_index (e ''GNEWS_API_KEY'') req) None] else [])"
proof (cases "truthy (e ''GNEWS_API_KEY'')")
  case False
  then show ?thesis
    by (simp add: noticias_index_missing calls_noticias_index_catch)
next
  case True
  show ?thesis
  proof (cases "n (AxiosGet (url_index (e ''GNEWS_API_KEY'') req) None)")
    case (Resolves r)
    with True show ?thesis
      by (simp add: noticias_index_resolves res_json_def)
  next
    case (Rejects err)
    with True show ?thesis
      by (simp add: noticias_index_rejects calls_noticias_index_catch)
  qed
qed

lemma calls_noticias_part_000:
  "calls (noticias_part_000 e n req w) =
     calls w @ (if truthy (e ''GNEWS_API_KEY'')
                then [AxiosGet ''https://gnews.io/api/v4/search''
                        (Some (params_part_000 (e ''GNEWS_API_KEY'') req))] else [])"
proof (cases "truthy (e ''GNEWS_API_KEY'')")
  case False
  then show ?thesis
    by (simp add: noticias_part_000_missing calls_noticias_part_000_catch)
next
  case True
  show ?thesis
  proof (cases "n (AxiosGet ''https://gnews.io/api/v4/search''
                  (Some (params_part_000 (e ''GNEWS_API_KEY'') req)))")
    case (Resolves r)
    with True show ?thesis
      by (simp add: noticias_part_000_resolves res_json_def res_setHeader_def)
  next
    case (Rejects err)
    with True show ?thesis
      by (simp add: noticias_part_000_rejects calls_noticias_part_000_catch)
  qed
qed

section \<open>Missing credential\<close>

text \<open>
  C1. While \<^verbatim>\<open>GNEWS_API_KEY\<close> is unset or empty, a GET request to \<^verbatim>\<open>/noticias\<close> is
  answered with status 500 and the fixed body \<^verbatim>\<open>{"error":"Falha ao buscar noticias externas."}\<close>
  (with the accented i of the source), and the list of outbound calls is left as it was:
  no call to the upstream service is made. This holds for the handler of either file.
\<close>

theorem missing_credential_fails_without_call:
  assumes "\<not> truthy (e ''GNEWS_API_KEY'')"
  shows "statusCode (res (noticias_index e n req w)) = 500
       \<and> body (res (noticias_index e n req w)) = Some (Json failure_body)
       \<and> calls (noticias_index e n req w) = calls w
       \<and> statusCode (res (noticias_part_000 e n req w)) = 500
       \<and> body (res (noticias_part_000 e n req w)) = Some (Json failure_body)
       \<and> calls (noticias_part_000 e n req w) = calls w"
  using assms
  by (simp add: noticias_index_missing noticias_part_000_missing res_noticias_index_catch
        res_noticias_part_000_catch calls_noticias_index_catch calls_noticias_part_000_catch)

theorem missing_credential_fails_without_call_witness:
  "\<not> truthy (env_unset ''GNEWS_API_KEY'')
   \<and> statusCode (res (noticias_index env_unset upstream_ok req_cursor fresh)) = 500
   \<and> body (res (noticias_index env_unset upstream_ok req_cursor fresh)) =
       Some (Json (JObj [(''error'',
         JStr (''Falha ao buscar not'' @ [CHR 0xC3, CHR 0xAD] @ ''cias externas.''))]))
   \<and> calls (noticias_index env_unset upstream_ok req_cursor fresh) = []
   \<and> statusCode (res (noticias_part_000 env_unset upstream_ok req_cursor fresh)) = 500
   \<and> body (res (noticias_part_000 env_unset upstream_ok req_cursor fresh)) =
       Some (Json (JObj [(''error'',
         JStr (''Falha ao buscar not'' @ [CHR 0xC3, CHR 0xAD] @ ''cias externas.''))]))
   \<and> calls (noticias_part_000 env_unset upstream_ok req_cursor fresh) = []
   \<and> \<not> truthy (env_empty_key ''GNEWS_API_KEY'')
   \<and> statusCode (res (noticias_index env_empty_key upstream_ok req_cursor fresh)) = 500
   \<and> calls (noticias_index env_empty_key upstream_ok req_cursor fresh) = []
   \<and> statusCode (res (noticias_part_000 env_empty_key upstream_ok req_cursor fresh)) = 500
   \<and> calls (noticias_part_000 env_empty_key upstream_ok req_cursor fresh) = []"
proof -
  have h: "\<not> truthy (env_unset ''GNEWS_API_KEY'')"
    by (simp add: env_unset_def)
  have h': "\<not> truthy (env_empty_key ''GNEWS_API_KEY'')"
    by (simp add: env_empty_key_def)
  from missing_credential_fails_without_call
         [where e = env_unset and n = upstream_ok and req = req_cursor and w = fresh, OF h]
       missing_credential_fails_without_call
         [where e = env_empty_key and n = upstream_ok and req = req_cursor and w = fresh, OF h']
       h h'
  show ?thesis
    by (simp add: fresh_def failure_body_def)
qed

section \<open>\<^verbatim>\<open>/hello\<close>\<close>

text \<open>
  C7. A GET request to \<^verbatim>\<open>/hello\<close> is answered with the text \<^verbatim>\<open>Hello world\<close> and the
  status of a new response, 200, whatever the environment, the upstream behaviour and the
  request are; nothing is read from the environment and no outbound call is made.
\<close>

theorem hello_fixed_text:
  "router_index e n ''/hello'' req =
     Some \<lparr>calls = [], console = [],
           res = \<lparr>statusCode = 200, headers = Map.empty, body = Some (Text ''Hello world'')\<rparr>\<rparr>
   \<and> router_part_000 e n ''/hello'' req =
     Some \<lparr>calls = [], console = [],
           res = \<lparr>statusCode = 200, headers = Map.empty, body = Some (Text ''Hello world'')\<rparr>\<rparr>"
  by (simp add: router_index_def router_part_000_def hello_def res_send_def fresh_def)

section \<open>Number of outbound calls\<close>

text \<open>
  C8. One request to \<^verbatim>\<open>/noticias\<close> adds exactly one outbound call when the credential is
  configured and none when it is not, whatever the upstream answers: there is no second
  call on any path.
\<close>

theorem one_outbound_call_at_most:
  "length (calls (noticias_index e n req w)) =
     length (calls w) + (if truthy (e ''GNEWS_API_KEY'') then 1 else 0)
   \<and> length (calls (noticias_part_000 e n req w)) =
     length (calls w) + (if truthy (e ''GNEWS_API_KEY'') then 1 else 0)"
  by (simp add: calls_noticias_index calls_noticias_part_000)

theorem one_outbound_call_at_most_witness:
  "length (calls (noticias_index env_with_key upstream_503 req_cursor fresh)) = 1
   \<and> length (calls (noticias_part_000 env_with_key upstream_503 req_cursor fresh)) = 1
   \<and> length (calls (noticias_index env_empty_key upstream_503 req_cursor fresh)) = 0
   \<and> length (calls (noticias_part_000 env_empty_key upstream_503 req_cursor fresh)) = 0"
  using one_outbound_call_at_most
          [where e = env_with_key and n = upstream_503 and req = req_cursor and w = fresh]
        one_outbound_call_at_most
          [where e = env_empty_key and n = upstream_503 and req = req_cursor and w = fresh]
  by (simp add: env_with_key_def env_empty_key_def fresh_def)

section \<open>Failures\<close>

text \<open>
  C3. Every failure of a GET request to \<^verbatim>\<open>/noticias\<close> gives the same response: the
  response as it was, with status 500 and the body
  \<^verbatim>\<open>{"error":"Falha ao buscar noticias externas."}\<close> (with the accented i of the source). The
  failure is a missing credential or a rejected outbound call, with any error value \<open>err\<close>:
  one that carries an upstream response (a non-success status), one that carries only the
  request (no response received), one that carries neither (the request could not be
  built). The right-hand side mentions neither the error, nor the credential, nor the
  request: nothing of the cause reaches the caller. This holds for the handler of either
  file.
\<close>

theorem failures_collapse_to_fixed_response:
  "(\<not> truthy (e ''GNEWS_API_KEY'')
      \<or> n (AxiosGet (url_index (e ''GNEWS_API_KEY'') req) None) = Rejects err
    \<longrightarrow> res (noticias_index e n req w) =
          (res w)\<lparr>statusCode := 500,
                  body := Some (Json (JObj [(''error'',
                    JStr (''Falha ao buscar not'' @ [CHR 0xC3, CHR 0xAD] @ ''cias externas.''))]))\<rparr>)
   \<and> (\<not> truthy (e ''GNEWS_API_KEY'')
      \<or> n (AxiosGet ''https://gnews.io/api/v4/search''
              (Some (params_part_000 (e ''GNEWS_API_KEY'') req))) = Rejects err'
    \<longrightarrow> res (noticias_part_000 e n req w) =
          (res w)\<lparr>statusCode := 500,
                  body := Some (Json (JObj [(''error'',
                    JStr (''Falha ao buscar not'' @ [CHR 0xC3, CHR 0xAD] @ ''cias externas.''))]))\<rparr>)"
proof (cases "truthy (e ''GNEWS_API_KEY'')")
  case False
  then show ?thesis
    by (simp add: noticias_index_missing noticias_part_000_missing res_noticias_index_catch
          res_noticias_part_000_catch failure_body_def)
next
  case True
  then show ?thesis
    by (simp add: noticias_index_rejects noticias_part_000_rejects res_noticias_index_catch
          res_noticias_part_000_catch failure_body_def)
qed

theorem failures_collapse_to_fixed_response_witness:
  "\<not> truthy (env_unset ''GNEWS_API_KEY'')
   \<and> res (noticias_index env_unset upstream_ok req_cursor fresh) =
       \<lparr>statusCode = 500, headers = Map.empty,
        body = Some (Json (JObj [(''error'',
          JStr (''Falha ao buscar not'' @ [CHR 0xC3, CHR 0xAD] @ ''cias externas.''))]))\<rparr>
   \<and> res (noticias_part_000 env_unset upstream_ok req_cursor fresh) =
       res (noticias_index env_unset upstream_ok req_cursor fresh)
   \<and> upstream_503 (AxiosGet (url_index (env_with_key ''GNEWS_API_KEY'') req_cursor) None) =
       Rejects error_503
   \<and> res (noticias_index env_with_key upstream_503 req_cursor fresh) =
       res (noticias_index env_unset upstream_ok req_cursor fresh)
   \<and> res (noticias_part_000 env_with_key upstream_503 req_cursor fresh) =
       res (noticias_index env_unset upstream_ok req_cursor fresh)
   \<and> upstream_unreachable
        (AxiosGet (url_index (env_with_key ''GNEWS_API_KEY'') req_cursor) None) =
       Rejects error_unreachable
   \<and> res (noticias_index env_with_key upstream_unreachable req_cursor fresh) =
       res (noticias_index env_unset upstream_ok req_cursor fresh)
   \<and> res (noticias_part_000 env_with_key upstream_unreachable req_cursor fresh) =
       res (noticias_index env_unset upstream_ok req_cursor fresh)
   \<and> upstream_unbuildable
        (AxiosGet (url_index (env_with_key ''GNEWS_API_KEY'') req_cursor) None) =
       Rejects error_unbuildable
   \<and> res (noticias_index env_with_key upstream_unbuildable req_cursor fresh) =
       res (noticias_index env_unset upstream_ok req_cursor fresh)
   \<and> res (noticias_part_000 env_with_key upstream_unbuildable req_cursor fresh) =
       res (noticias_index env_unset upstream_ok req_cursor fresh)"
  using failures_collapse_to_fixed_response
          [where e = env_unset and n = upstream_ok and req = req_cursor and w = fresh]
        failures_collapse_to_fixed_response
          [where e = env_with_key and n = upstream_503 and req = req_cursor and w = fresh
             and err = error_503 and err' = error_503]
        failures_collapse_to_fixed_response
          [where e = env_with_key and n = upstream_unreachable and req = req_cursor and w = fresh
             and err = error_unreachable and err' = error_unreachable]
        failures_collapse_to_fixed_response
          [where e = env_with_key and n = upstream_unbuildable and req = req_cursor and w = fresh
             and err = error_unbuildable and err' = error_unbuildable]
  by (simp add: env_unset_def upstream_503_def upstream_unreachable_def upstream_unbuildable_def
        fresh_def)

text \<open>
  C10. In \<^verbatim>\<open>part_000\<close> a failure leaves the headers of the response as they were, next to
  status 500 and the fixed body; the three cache headers are set exactly when the credential
  is configured and the outbound call resolves.
\<close>

theorem cache_headers_only_on_success:
  "(\<not> truthy (e ''GNEWS_API_KEY'')
      \<or> n (AxiosGet ''https://gnews.io/api/v4/search''
              (Some (params_part_000 (e ''GNEWS_API_KEY'') req))) = Rejects err
    \<longrightarrow> statusCode (res (noticias_part_000 e n req w)) = 500
        \<and> body (res (noticias_part_000 e n req w)) = Some (Json failure_body)
        \<and> headers (res (noticias_part_000 e n req w)) = headers (res w))
   \<and> (truthy (e ''GNEWS_API_KEY'')
      \<and> n (AxiosGet ''https://gnews.io/api/v4/search''
              (Some (params_part_000 (e ''GNEWS_API_KEY'') req))) = Resolves r
    \<longrightarrow> headers (res (noticias_part_000 e n req w)) =
          (headers (res w))
            (''Cache-Control'' \<mapsto> HStr ''no-cache, no-store, must-revalidate'',
             ''Pragma'' \<mapsto> HStr ''no-cache'',
             ''Expires'' \<mapsto> HNum 0))"
proof (cases "truthy (e ''GNEWS_API_KEY'')")
  case False
  then show ?thesis
    by (simp add: noticias_part_000_missing res_noticias_part_000_catch)
next
  case True
  then show ?thesis
    by (simp add: noticias_part_000_rejects noticias_part_000_resolves res_noticias_part_000_catch
          res_json_def res_setHeader_def)
qed

theorem cache_headers_only_on_success_witness:
  "upstream_503 (AxiosGet ''https://gnews.io/api/v4/search''
      (Some (params_part_000 (env_with_key ''GNEWS_API_KEY'') req_plain))) = Rejects error_503
   \<and> statusCode (res (noticias_part_000 env_with_key upstream_503 req_plain fresh)) = 500
   \<and> headers (res (noticias_part_000 env_with_key upstream_503 req_plain fresh)) ''Cache-Control'' = None
   \<and> headers (res (noticias_part_000 env_with_key upstream_503 req_plain fresh)) ''Pragma'' = None
   \<and> headers (res (noticias_part_000 env_with_key upstream_503 req_plain fresh)) ''Expires'' = None
   \<and> truthy (env_with_key ''GNEWS_API_KEY'')
   \<and> upstream_ok (AxiosGet ''https://gnews.io/api/v4/search''
      (Some (params_part_000 (env_with_key ''GNEWS_API_KEY'') req_plain))) = Resolves articles
   \<and> headers (res (noticias_part_000 env_with_key upstream_ok req_plain fresh)) ''Cache-Control'' =
       Some (HStr ''no-cache, no-store, must-revalidate'')
   \<and> headers (res (noticias_part_000 env_with_key upstream_ok req_plain fresh)) ''Pragma'' =
       Some (HStr ''no-cache'')
   \<and> headers (res (noticias_part_000 env_with_key upstream_ok req_plain fresh)) ''Expires'' =
       Some (HNum 0)"
  using cache_headers_only_on_success
          [where e = env_with_key and n = upstream_503 and req = req_plain and w = fresh
             and err = error_503]
        cache_headers_only_on_success
          [where e = env_with_key and n = upstream_ok and req = req_plain and w = fresh
             and r = articles]
  by (simp add: env_with_key_def upstream_503_def upstream_ok_def fresh_def)

section \<open>Success\<close>




section \<open>The two variants compared\<close>

text \<open>With the same upstream answer the two handlers send different headers: the
  statement of C6 fails on the success path.\<close>

theorem variants_differ_in_headers:
  "upstream_ok (AxiosGet (url_index (env_with_key ''GNEWS_API_KEY'') req_cursor) None) =
     upstream_ok (AxiosGet ''https://gnews.io/api/v4/search''
        (Some (params_part_000 (env_with_key ''GNEWS_API_KEY'') req_cursor)))
   \<and> headers (res (noticias_index env_with_key upstream_ok req_cursor fresh)) ''Pragma'' = None
   \<and> headers (res (noticias_part_000 env_with_key upstream_ok req_cursor fresh)) ''Pragma'' =
       Some (HStr ''no-cache'')
   \<and> res (noticias_index env_with_key upstream_ok req_cursor fresh) \<noteq>
       res (noticias_part_000 env_with_key upstream_ok req_cursor fresh)"
proof -
  have k: "truthy (env_with_key ''GNEWS_API_KEY'')"
    by (simp add: env_with_key_def)
  have u: "upstream_ok (AxiosGet ''https://gnews.io/api/v4/search''
        (Some (params_part_000 (env_with_key ''GNEWS_API_KEY'') req_cursor))) = Resolves articles"
    by (simp add: upstream_ok_def)
  have u': "upstream_ok (AxiosGet (url_index (env_with_key ''GNEWS_API_KEY'') req_cursor) None) =
        Resolves articles"
    by (simp add: upstream_ok_def)
  have a: "headers (res (noticias_index env_with_key upstream_ok req_cursor fresh)) ''Pragma'' = None"
    by (simp add: noticias_index_resolves [where e = env_with_key and n = upstream_ok and req = req_cursor, OF k u'] res_json_def fresh_def)
  have b: "headers (res (noticias_part_000 env_with_key upstream_ok req_cursor fresh)) ''Pragma'' =
       Some (HStr ''no-cache'')"
    by (simp add: noticias_part_000_resolves [where e = env_with_key and n = upstream_ok and req = req_cursor, OF k u] res_json_def res_setHeader_def fresh_def)
  from a b have "res (noticias_index env_with_key upstream_ok req_cursor fresh) \<noteq>
       res (noticias_part_000 env_with_key upstream_ok req_cursor fresh)"
    by auto
  with a b show ?thesis
    by (simp add: upstream_ok_def)
qed

text \<open>
  C6, as amended. When the upstream outcome is the same for the call either handler makes,
  the two handlers send the same status and the same body; the handler of \<^verbatim>\<open>index.js\<close>
  never changes the headers, the handler of \<^verbatim>\<open>part_000\<close> adds the three cache headers on
  the success path and changes none on a failure.
\<close>

theorem variants_agree_on_status_and_body:
  assumes "n (AxiosGet (url_index (e ''GNEWS_API_KEY'') req) None) =
           n (AxiosGet ''https://gnews.io/api/v4/search''
                (Some (params_part_000 (e ''GNEWS_API_KEY'') req)))"
  shows "statusCode (res (noticias_part_000 e n req w)) = statusCode (res (noticias_index e n req w))
       \<and> body (res (noticias_part_000 e n req w)) = body (res (noticias_index e n req w))
       \<and> headers (res (noticias_index e n req w)) = headers (res w)
       \<and> headers (res (noticias_part_000 e n req w)) =
           (case n (AxiosGet (url_index (e ''GNEWS_API_KEY'') req) None) of
              Rejects err \<Rightarrow> headers (res w)
            | Resolves r \<Rightarrow>
                if truthy (e ''GNEWS_API_KEY'')
                then (headers (res w))
                       (''Cache-Control'' \<mapsto> HStr ''no-cache, no-store, must-revalidate'',
                        ''Pragma'' \<mapsto> HStr ''no-cache'',
                        ''Expires'' \<mapsto> HNum 0)
                else headers (res w))"
proof (cases "truthy (e ''GNEWS_API_KEY'')")
  case False
  then show ?thesis
    by (simp add: noticias_index_missing noticias_part_000_missing res_noticias_index_catch
          res_noticias_part_000_catch split: axios_result.splits)
next
  case True
  show ?thesis
  proof (cases "n (AxiosGet (url_index (e ''GNEWS_API_KEY'') req) None)")
    case (Resolves r)
    with assms have "n (AxiosGet ''https://gnews.io/api/v4/search''
                (Some (params_part_000 (e ''GNEWS_API_KEY'') req))) = Resolves r"
      by simp
    with True Resolves show ?thesis
      by (simp add: noticias_index_resolves noticias_part_000_resolves res_json_def
            res_setHeader_def)
  next
    case (Rejects err)
    with assms have "n (AxiosGet ''https://gnews.io/api/v4/search''
                (Some (params_part_000 (e ''GNEWS_API_KEY'') req))) = Rejects err"
      by simp
    with True Rejects show ?thesis
      by (simp add: noticias_index_rejects noticias_part_000_rejects res_noticias_index_catch
            res_noticias_part_000_catch)
  qed
qed

theorem variants_agree_on_status_and_body_witness:
  "upstream_503 (AxiosGet (url_index (env_with_key ''GNEWS_API_KEY'') req_cursor) None) =
     upstream_503 (AxiosGet ''https://gnews.io/api/v4/search''
        (Some (params_part_000 (env_with_key ''GNEWS_API_KEY'') req_cursor)))
   \<and> statusCode (res (noticias_part_000 env_with_key upstream_503 req_cursor fresh)) =
       statusCode (res (noticias_index env_with_key upstream_503 req_cursor fresh))
   \<and> body (res (noticias_part_000 env_with_key upstream_503 req_cursor fresh)) =
       body (res (noticias_index env_with_key upstream_503 req_cursor fresh))
   \<and> upstream_ok (AxiosGet (url_index (env_with_key ''GNEWS_API_KEY'') req_cursor) None) =
     upstream_ok (AxiosGet ''https://gnews.io/api/v4/search''
        (Some (params_part_000 (env_with_key ''GNEWS_API_KEY'') req_cursor)))
   \<and> statusCode (res (noticias_part_000 env_with_key upstream_ok req_cursor fresh)) =
       statusCode (res (noticias_index env_with_key upstream_ok req_cursor fresh))
   \<and> body (res (noticias_part_000 env_with_key upstream_ok req_cursor fresh)) =
       body (res (noticias_index env_with_key upstream_ok req_cursor fresh))
   \<and> headers (res (noticias_part_000 env_with_key upstream_ok req_cursor fresh)) ''Expires'' =
       Some (HNum 0)
   \<and> headers (res (noticias_index env_with_key upstream_ok req_cursor fresh)) ''Expires'' = None"
proof -
  have a: "upstream_503 (AxiosGet (url_index (env_with_key ''GNEWS_API_KEY'') req_cursor) None) =
     upstream_503 (AxiosGet ''https://gnews.io/api/v4/search''
        (Some (params_part_000 (env_with_key ''GNEWS_API_KEY'') req_cursor)))"
    by (simp add: upstream_503_def)
  have b: "upstream_ok (AxiosGet (url_index (env_with_key ''GNEWS_API_KEY'') req_cursor) None) =
     upstream_ok (AxiosGet ''https://gnews.io/api/v4/search''
        (Some (params_part_000 (env_with_key ''GNEWS_API_KEY'') req_cursor)))"
    by (simp add: upstream_ok_def)
  have k: "truthy (env_with_key ''GNEWS_API_KEY'')"
    by (simp add: env_with_key_def)
  from variants_agree_on_status_and_body
         [where e = env_with_key and n = upstream_503 and req = req_cursor and w = fresh, OF a]
       variants_agree_on_status_and_body
         [where e = env_with_key and n = upstream_ok and req = req_cursor and w = fresh, OF b] a b k
  show ?thesis
    by (simp add: upstream_ok_def fresh_def)
qed

section \<open>The outbound request\<close>

text \<open>In \<^verbatim>\<open>part_000\<close> the fields \<^verbatim>\<open>q\<close>, \<^verbatim>\<open>country\<close> and \<^verbatim>\<open>max\<close> of the \<^verbatim>\<open>params\<close> object are the
  fixed search expression, \<^verbatim>\<open>br\<close> and 10, whatever the key and the inbound request are.\<close>

lemma params_part_000_fixed:
  \<open>q (params_part_000 k req) =
     ''queimadas AND (Amaz'' @ [CHR 0xC3, CHR 0xB4] @ ''nia OR floresta OR cerrado OR '' @
     ''Pantanal OR Norte OR Sul OR Sudeste OR Nordeste OR Caatinga OR Pampa OR '' @
     ''"Mata Atl'' @ [CHR 0xC3, CHR 0xA2] @ ''ntica" OR "Centro-Oeste" OR Brasil) '' @
     ''NOT ("LA" OR "Los Angeles")''
   \<and> country (params_part_000 k req) = ''br''
   \<and> max' (params_part_000 k req) = 10\<close>
  by (simp add: params_part_000_def Let_def search_expression_def)

subsection \<open>The cursor \<^verbatim>\<open>to\<close>\<close>

text \<open>In \<^verbatim>\<open>part_000\<close> the value of \<^verbatim>\<open>to\<close> is stored in the \<^verbatim>\<open>params\<close> object as it is, and the
  key is absent when the request has no (or an empty) \<^verbatim>\<open>to\<close>.\<close>

lemma to_part_000:
  "to (params_part_000 k req) = (if truthy (query req ''to'') then query req ''to'' else None)"
  by (simp add: params_part_000_def Let_def)

text \<open>In \<^verbatim>\<open>index.js\<close> nothing is inserted between \<^verbatim>\<open>max=10\<close> and \<^verbatim>\<open>&token=\<close> when the request
  has no (or an empty) \<^verbatim>\<open>to\<close>.\<close>

lemma url_index_without_to:
  assumes "\<not> truthy (query req ''to'')"
  shows "url_index k req =
           ''https://gnews.io/api/v4/search?q='' @ search_expression @ ''&country=br&max=10'' @
           ''&token='' @ template_str k"
  using assms by (simp add: url_index_text)

subsection \<open>Parameters that arrive through the cursor\<close>

text \<open>
  C5. The search expression, the country and the cap of an outbound request are to be
  constants, independent of the inbound request. For the request
  \<^verbatim>\<open>GET /noticias?to=x%26max%3D100%26country%3Dus%26q%3Danything\<close>, whose \<^verbatim>\<open>req.query.to\<close> is
  \<^verbatim>\<open>x&max=100&country=us&q=anything\<close>, the handler of \<^verbatim>\<open>index.js\<close> calls a URL that carries,
  after the three fixed parameters, a second \<^verbatim>\<open>max\<close>, \<^verbatim>\<open>country\<close> and \<^verbatim>\<open>q\<close> with the values of
  the caller: read at their last occurrence the three parameters are \<^verbatim>\<open>100\<close>, \<^verbatim>\<open>us\<close> and
  \<^verbatim>\<open>anything\<close>. The handler of \<^verbatim>\<open>part_000\<close> hands the three constants, and the whole value as
  \<^verbatim>\<open>to\<close>, to the client library.
\<close>

theorem caller_appends_search_parameters:
  \<open>query req_injection ''to'' = Some ''x&max=100&country=us&q=anything''
   \<and> calls (noticias_index env_with_key upstream_ok req_injection fresh) =
       [AxiosGet (url_index (Some ''0123456789abcdef'') req_injection) None]
   \<and> query_params (url_index (Some ''0123456789abcdef'') req_injection) =
       [(''q'',
         ''queimadas AND (Amaz'' @ [CHR 0xC3, CHR 0xB4] @ ''nia OR floresta OR cerrado OR '' @
         ''Pantanal OR Norte OR Sul OR Sudeste OR Nordeste OR Caatinga OR Pampa OR '' @
         ''"Mata Atl'' @ [CHR 0xC3, CHR 0xA2] @ ''ntica" OR "Centro-Oeste" OR Brasil) '' @
         ''NOT ("LA" OR "Los Angeles")''),
        (''country'', ''br''), (''max'', ''10''), (''to'', ''x''), (''max'', ''100''),
        (''country'', ''us''), (''q'', ''anything''), (''token'', ''0123456789abcdef'')]
   \<and> map_of (rev (query_params (url_index (Some ''0123456789abcdef'') req_injection))) ''max'' =
       Some ''100''
   \<and> map_of (rev (query_params (url_index (Some ''0123456789abcdef'') req_injection))) ''country'' =
       Some ''us''
   \<and> map_of (rev (query_params (url_index (Some ''0123456789abcdef'') req_injection))) ''q'' =
       Some ''anything''
   \<and> calls (noticias_part_000 env_with_key upstream_ok req_injection fresh) =
       [AxiosGet ''https://gnews.io/api/v4/search''
          (Some (params_part_000 (Some ''0123456789abcdef'') req_injection))]
   \<and> country (params_part_000 (Some ''0123456789abcdef'') req_injection) = ''br''
   \<and> max' (params_part_000 (Some ''0123456789abcdef'') req_injection) = 10
   \<and> to (params_part_000 (Some ''0123456789abcdef'') req_injection) =
       Some ''x&max=100&country=us&q=anything''\<close>
proof -
  let ?u = "url_index (Some ''0123456789abcdef'') req_injection"
  have a: "query req_injection ''to'' = Some ''x&max=100&country=us&q=anything''"
    by (simp add: req_injection_def)
  have b: "calls (noticias_index env_with_key upstream_ok req_injection fresh) = [AxiosGet ?u None]"
    by (simp add: calls_noticias_index env_with_key_def fresh_def)
  have d: "query_params ?u =
       [(''q'', search_expression), (''country'', ''br''), (''max'', ''10''), (''to'', ''x''),
        (''max'', ''100''), (''country'', ''us''), (''q'', ''anything''),
        (''token'', ''0123456789abcdef'')]"
    unfolding query_params_url_index a
    by (simp add: name_value_def)
  have d': \<open>query_params ?u =
       [(''q'',
         ''queimadas AND (Amaz'' @ [CHR 0xC3, CHR 0xB4] @ ''nia OR floresta OR cerrado OR '' @
         ''Pantanal OR Norte OR Sul OR Sudeste OR Nordeste OR Caatinga OR Pampa OR '' @
         ''"Mata Atl'' @ [CHR 0xC3, CHR 0xA2] @ ''ntica" OR "Centro-Oeste" OR Brasil) '' @
         ''NOT ("LA" OR "Los Angeles")''),
        (''country'', ''br''), (''max'', ''10''), (''to'', ''x''), (''max'', ''100''),
        (''country'', ''us''), (''q'', ''anything''), (''token'', ''0123456789abcdef'')]\<close>
    unfolding d by (simp add: search_expression_def)
  have l1: "map_of (rev (query_params ?u)) ''max'' = Some ''100''"
    unfolding d by simp
  have l2: "map_of (rev (query_params ?u)) ''country'' = Some ''us''"
    unfolding d by simp
  have l3: "map_of (rev (query_params ?u)) ''q'' = Some ''anything''"
    unfolding d by simp
  have f: "calls (noticias_part_000 env_with_key upstream_ok req_injection fresh) =
       [AxiosGet ''https://gnews.io/api/v4/search''
          (Some (params_part_000 (Some ''0123456789abcdef'') req_injection))]"
    by (simp add: calls_noticias_part_000 env_with_key_def fresh_def)
  have g1: "country (params_part_000 (Some ''0123456789abcdef'') req_injection) = ''br''"
    by (simp add: params_part_000_def Let_def)
  have g2: "max' (params_part_000 (Some ''0123456789abcdef'') req_injection) = 10"
    by (simp add: params_part_000_def Let_def)
  have g3: "to (params_part_000 (Some ''0123456789abcdef'') req_injection) =
       Some ''x&max=100&country=us&q=anything''"
    by (simp add: to_part_000 a)
  show ?thesis
    by (intro conjI) (rule a b d' l1 l2 l3 f g1 g2 g3)+
qed

text \<open>
  C4. A present \<^verbatim>\<open>to\<close> is to reach the upstream as the exact value of the parameter \<^verbatim>\<open>to\<close>.
  For the request \<^verbatim>\<open>GET /noticias?to=2024-01-15%26max%3D100\<close>, whose \<^verbatim>\<open>req.query.to\<close> is
  \<^verbatim>\<open>2024-01-15&max=100\<close>, the handler of \<^verbatim>\<open>index.js\<close> calls a URL whose parameter \<^verbatim>\<open>to\<close> is
  \<^verbatim>\<open>2024-01-15\<close> only, followed by a further parameter \<^verbatim>\<open>max=100\<close>; the handler of
  \<^verbatim>\<open>part_000\<close> hands the whole value to the client library.
\<close>

theorem to_with_ampersand_is_cut:
  "query req_ampersand ''to'' = Some ''2024-01-15&max=100''
   \<and> calls (noticias_index env_with_key upstream_ok req_ampersand fresh) =
       [AxiosGet (url_index (Some ''0123456789abcdef'') req_ampersand) None]
   \<and> url_index (Some ''0123456789abcdef'') req_ampersand =
       ''https://gnews.io/api/v4/search?q='' @ search_expression @
       ''&country=br&max=10&to=2024-01-15&max=100&token=0123456789abcdef''
   \<and> query_params (url_index (Some ''0123456789abcdef'') req_ampersand) =
       [(''q'', search_expression), (''country'', ''br''), (''max'', ''10''),
        (''to'', ''2024-01-15''), (''max'', ''100''), (''token'', ''0123456789abcdef'')]
   \<and> get_param ''to'' (url_index (Some ''0123456789abcdef'') req_ampersand) = Some ''2024-01-15''
   \<and> calls (noticias_part_000 env_with_key upstream_ok req_ampersand fresh) =
       [AxiosGet ''https://gnews.io/api/v4/search''
          (Some (params_part_000 (Some ''0123456789abcdef'') req_ampersand))]
   \<and> to (params_part_000 (Some ''0123456789abcdef'') req_ampersand) = Some ''2024-01-15&max=100''"
proof -
  have a: "query req_ampersand ''to'' = Some ''2024-01-15&max=100''"
    by (simp add: req_ampersand_def)
  have b: "calls (noticias_index env_with_key upstream_ok req_ampersand fresh) =
       [AxiosGet (url_index (Some ''0123456789abcdef'') req_ampersand) None]"
    by (simp add: calls_noticias_index env_with_key_def fresh_def)
  have c: "url_index (Some ''0123456789abcdef'') req_ampersand =
       ''https://gnews.io/api/v4/search?q='' @ search_expression @
       ''&country=br&max=10&to=2024-01-15&max=100&token=0123456789abcdef''"
    by (simp add: url_index_text a)
  have d: "query_params (url_index (Some ''0123456789abcdef'') req_ampersand) =
       [(''q'', search_expression), (''country'', ''br''), (''max'', ''10''),
        (''to'', ''2024-01-15''), (''max'', ''100''), (''token'', ''0123456789abcdef'')]"
    unfolding query_params_url_index a
    by (simp add: name_value_def)
  have e: "get_param ''to'' (url_index (Some ''0123456789abcdef'') req_ampersand) = Some ''2024-01-15''"
    unfolding get_param_def d by simp
  have f: "calls (noticias_part_000 env_with_key upstream_ok req_ampersand fresh) =
       [AxiosGet ''https://gnews.io/api/v4/search''
          (Some (params_part_000 (Some ''0123456789abcdef'') req_ampersand))]"
    by (simp add: calls_noticias_part_000 env_with_key_def fresh_def)
  have g: "to (params_part_000 (Some ''0123456789abcdef'') req_ampersand) = Some ''2024-01-15&max=100''"
    by (simp add: to_part_000 a)
  show ?thesis
    by (intro conjI) (rule a b c d e f g)+
qed

text \<open>A value with \<^verbatim>\<open>=\<close> and no \<^verbatim>\<open>&\<close> gives the five parameters that were meant, with \<^verbatim>\<open>to\<close>
  carrying the whole value: the statement of C9 fails for it.\<close>

theorem equals_sign_alone_adds_nothing:
  "query req_equals ''to'' = Some ''a=b''
   \<and> CHR ''='' \<in> set ''a=b''
   \<and> calls (noticias_index env_with_key upstream_ok req_equals fresh) =
       [AxiosGet (url_index (Some ''0123456789abcdef'') req_equals) None]
   \<and> query_params (url_index (Some ''0123456789abcdef'') req_equals) =
       [(''q'', search_expression), (''country'', ''br''), (''max'', ''10''),
        (''to'', ''a=b''), (''token'', ''0123456789abcdef'')]"
proof -
  have a: "query req_equals ''to'' = Some ''a=b''"
    by (simp add: req_equals_def)
  have a': "CHR ''='' \<in> set ''a=b''"
    by simp
  have b: "calls (noticias_index env_with_key upstream_ok req_equals fresh) =
       [AxiosGet (url_index (Some ''0123456789abcdef'') req_equals) None]"
    by (simp add: calls_noticias_index env_with_key_def fresh_def)
  have d: "query_params (url_index (Some ''0123456789abcdef'') req_equals) =
       [(''q'', search_expression), (''country'', ''br''), (''max'', ''10''),
        (''to'', ''a=b''), (''token'', ''0123456789abcdef'')]"
    unfolding query_params_url_index a
    by (simp add: name_value_def)
  show ?thesis
    by (intro conjI) (rule a a' b d)+
qed

text \<open>
  C9, as amended. In \<^verbatim>\<open>index.js\<close> a present \<^verbatim>\<open>to\<close> is put into the URL as it is, as
  \<^verbatim>\<open>&to=<value>\<close> between \<^verbatim>\<open>max=10\<close> and \<^verbatim>\<open>&token=\<close>. The parameter \<^verbatim>\<open>to\<close> of the URL is
  then the value up to its first \<^verbatim>\<open>&\<close> or \<^verbatim>\<open>#\<close>, so a value that contains \<^verbatim>\<open>&\<close> never
  arrives whole. When the value has no \<^verbatim>\<open>#\<close>, the segments of the query string between
  the three fixed ones and those of the token are the pieces of \<^verbatim>\<open>to=<value>\<close> cut at each
  \<^verbatim>\<open>&\<close> of the value: at least two when the value contains \<^verbatim>\<open>&\<close>, the later ones chosen
  by the caller, and the single segment \<^verbatim>\<open>to=<value>\<close> when it does not, whether or not it
  contains \<^verbatim>\<open>=\<close>.
\<close>

theorem to_is_interpolated_verbatim:
  assumes "query req ''to'' = Some v" and "v \<noteq> []"
  shows "url_index k req =
           ''https://gnews.io/api/v4/search?q='' @ search_expression @ ''&country=br&max=10'' @
           ''&to='' @ v @ ''&token='' @ template_str k
       \<and> get_param ''to'' (url_index k req) =
           Some (takeWhile (\<lambda>x. x \<noteq> CHR ''&'' \<and> x \<noteq> CHR ''#'') v)
       \<and> (CHR ''&'' \<in> set v \<longrightarrow> get_param ''to'' (url_index k req) \<noteq> Some v)
       \<and> (CHR ''#'' \<notin> set v \<longrightarrow>
            query_segments (url_index k req) =
              [''q='' @ search_expression, ''country=br'', ''max=10''] @
              split_on CHR ''&'' (''to='' @ v) @
              split_on CHR ''&'' (takeWhile (\<lambda>x. x \<noteq> CHR ''#'') (''token='' @ template_str k)))
       \<and> (CHR ''&'' \<in> set v \<longrightarrow> 2 \<le> length (split_on CHR ''&'' (''to='' @ v)))
       \<and> (CHR ''&'' \<notin> set v \<longrightarrow> split_on CHR ''&'' (''to='' @ v) = [''to='' @ v])
       \<and> (CHR ''&'' \<notin> set v \<and> CHR ''#'' \<notin> set v \<longrightarrow>
            get_param ''to'' (url_index k req) = Some v)"
proof -
  let ?cut = "takeWhile (\<lambda>x. x \<noteq> CHR ''&'' \<and> x \<noteq> CHR ''#'') v"
  have a: "url_index k req =
           ''https://gnews.io/api/v4/search?q='' @ search_expression @ ''&country=br&max=10'' @
           ''&to='' @ v @ ''&token='' @ template_str k"
    unfolding url_index_text using assms by simp
  have b: "get_param ''to'' (url_index k req) = Some ?cut"
    using assms by (rule get_param_to)
  have c: "CHR ''&'' \<in> set v \<longrightarrow> get_param ''to'' (url_index k req) \<noteq> Some v"
  proof
    assume "CHR ''&'' \<in> set v"
    then have "?cut \<noteq> v"
      by (auto simp: takeWhile_eq_all_conv)
    then show "get_param ''to'' (url_index k req) \<noteq> Some v"
      using b by simp
  qed
  have d: "CHR ''#'' \<notin> set v \<longrightarrow>
            query_segments (url_index k req) =
              [''q='' @ search_expression, ''country=br'', ''max=10''] @
              split_on CHR ''&'' (''to='' @ v) @
              split_on CHR ''&'' (takeWhile (\<lambda>x. x \<noteq> CHR ''#'') (''token='' @ template_str k))"
    using assms by (intro impI query_segments_url_index_to)
  have e: "CHR ''&'' \<in> set v \<longrightarrow> 2 \<le> length (split_on CHR ''&'' (''to='' @ v))"
  proof
    assume "CHR ''&'' \<in> set v"
    then have "CHR ''&'' \<in> set (''to='' @ v)"
      by simp
    then show "2 \<le> length (split_on CHR ''&'' (''to='' @ v))"
      by (rule split_on_length)
  qed
  have f: "CHR ''&'' \<notin> set v \<longrightarrow> split_on CHR ''&'' (''to='' @ v) = [''to='' @ v]"
  proof
    assume "CHR ''&'' \<notin> set v"
    then have "CHR ''&'' \<notin> set (''to='' @ v)"
      by simp
    then show "split_on CHR ''&'' (''to='' @ v) = [''to='' @ v]"
      by (rule split_on_none)
  qed
  have g: "CHR ''&'' \<notin> set v \<and> CHR ''#'' \<notin> set v \<longrightarrow>
            get_param ''to'' (url_index k req) = Some v"
  proof
    assume "CHR ''&'' \<notin> set v \<and> CHR ''#'' \<notin> set v"
    then have "?cut = v"
      by (auto simp: takeWhile_eq_all_conv)
    then show "get_param ''to'' (url_index k req) = Some v"
      using b by simp
  qed
  show ?thesis
    by (intro conjI) (rule a b c d e f g)+
qed

theorem to_is_interpolated_verbatim_witness:
  "query req_ampersand ''to'' = Some ''2024-01-15&max=100''
   \<and> url_index (Some ''0123456789abcdef'') req_ampersand =
       ''https://gnews.io/api/v4/search?q='' @ search_expression @
       ''&country=br&max=10&to=2024-01-15&max=100&token=0123456789abcdef''
   \<and> query_segments (url_index (Some ''0123456789abcdef'') req_ampersand) =
       [''q='' @ search_expression, ''country=br'', ''max=10'', ''to=2024-01-15'', ''max=100'',
        ''token=0123456789abcdef'']
   \<and> get_param ''to'' (url_index (Some ''0123456789abcdef'') req_ampersand) = Some ''2024-01-15''
   \<and> query req_equals ''to'' = Some ''a=b''
   \<and> query_segments (url_index (Some ''0123456789abcdef'') req_equals) =
       [''q='' @ search_expression, ''country=br'', ''max=10'', ''to=a=b'',
        ''token=0123456789abcdef'']
   \<and> get_param ''to'' (url_index (Some ''0123456789abcdef'') req_equals) = Some ''a=b''"
proof -
  let ?k = "Some ''0123456789abcdef''"
  have a: "query req_ampersand ''to'' = Some ''2024-01-15&max=100''"
    by (simp add: req_ampersand_def)
  have b: "query req_equals ''to'' = Some ''a=b''"
    by (simp add: req_equals_def)
  have s1: "split_on CHR ''&'' ''to=2024-01-15&max=100'' = [''to=2024-01-15'', ''max=100'']"
    by simp
  have s2: "split_on CHR ''&'' ''token=0123456789abcdef'' = [''token=0123456789abcdef'']"
    by (rule split_on_none) simp
  have s3: "split_on CHR ''&'' ''to=a=b'' = [''to=a=b'']"
    by (rule split_on_none) simp
  note A = to_is_interpolated_verbatim
         [where req = req_ampersand and v = "''2024-01-15&max=100''" and k = ?k, OF a]
  note B = to_is_interpolated_verbatim
         [where req = req_equals and v = "''a=b''" and k = ?k, OF b]
  have u: "url_index ?k req_ampersand =
       ''https://gnews.io/api/v4/search?q='' @ search_expression @
       ''&country=br&max=10&to=2024-01-15&max=100&token=0123456789abcdef''"
    using A [THEN conjunct1] by simp
  have g: "query_segments (url_index ?k req_ampersand) =
       [''q='' @ search_expression, ''country=br'', ''max=10'', ''to=2024-01-15'', ''max=100'',
        ''token=0123456789abcdef'']"
    using A [THEN conjunct2, THEN conjunct2, THEN conjunct2, THEN conjunct1] s1 s2
    by (simp del: split_on.simps)
  have p: "get_param ''to'' (url_index ?k req_ampersand) = Some ''2024-01-15''"
    using A [THEN conjunct2, THEN conjunct1] by simp
  have g': "query_segments (url_index ?k req_equals) =
       [''q='' @ search_expression, ''country=br'', ''max=10'', ''to=a=b'',
        ''token=0123456789abcdef'']"
    using B [THEN conjunct2, THEN conjunct2, THEN conjunct2, THEN conjunct1] s2 s3
    by (simp del: split_on.simps)
  have p': "get_param ''to'' (url_index ?k req_equals) = Some ''a=b''"
    using B [THEN conjunct2, THEN conjunct1] by simp
  show ?thesis
    by (intro conjI) (rule a u g p b g' p')+
qed

end
